theory Spec2Isabelle
  imports Main
begin

section \<open>Data model\<close>

text \<open>
  The token lifecycle of \<^verbatim>\<open>backend/controller/authController.js\<close>: the four
  request handlers \<^verbatim>\<open>register\<close>, \<^verbatim>\<open>login\<close>, \<^verbatim>\<open>logout\<close> and \<^verbatim>\<open>refresh\<close>,
  over the two MongoDB collections they touch (users, tokens). A handler is a function
  from the request and the database to the new database and what happened to the
  response object.
\<close>

type_synonym objectId = nat

text \<open>
  A JSON web token, abstractly: the secret it was signed with, the \<^verbatim>\<open>_id\<close> of its
  payload, and the issued-at and expires-at times in seconds. Any other cookie value is
  \<open>Malformed\<close>.
\<close>

datatype secret = ACCESS_TOKEN_SECRET | REFRESH_TOKEN_SECRET | OtherSecret string

datatype token = Jwt secret objectId nat nat | Malformed string

text \<open>A document of the users collection (the fields \<^verbatim>\<open>register\<close> writes).\<close>

record user =
  u_id :: objectId
  u_username :: string
  u_name :: string
  u_email :: string
  u_password :: string

text \<open>
  A document of the tokens collection, \<^verbatim>\<open>refreshTokenSchema\<close>: Mongo's own \<^verbatim>\<open>_id\<close>,
  the required \<^verbatim>\<open>token\<close> and the optional \<^verbatim>\<open>userId\<close>.
\<close>

record refreshTokenDoc =
  r_id :: objectId
  r_token :: token
  r_userId :: "objectId option"

text \<open>
  The database: the two collections, whether each can be reached (an operation on a
  collection that cannot be reached throws), and the next fresh ObjectId.
\<close>

record db =
  users :: "user list"
  tokens :: "refreshTokenDoc list"
  usersUp :: bool
  tokensUp :: bool
  nextId :: objectId

text \<open>
  What is thrown or handed to \<^verbatim>\<open>next\<close>. \<open>ErrorObject\<close> is the plain object the
  controller builds: its \<^verbatim>\<open>status\<close> and its other properties by name (the login
  handler spells one of them \<^verbatim>\<open>mesasge\<close>).
\<close>

datatype error =
    ValidationError
  | ErrorObject nat "(string \<times> string) list"
  | MongoError
  | IllegalArguments
  | JsonWebTokenError
  | TypeError

record userDto =
  dto_id :: objectId
  dto_username :: string
  dto_email :: string

record body =
  b_user :: "userDto option"
  b_auth :: bool

text \<open>
  How a handler ends: it calls \<^verbatim>\<open>next(error)\<close>, it sends \<^verbatim>\<open>res.status(n).json(body)\<close>,
  or its promise rejects because an exception escaped every \<^verbatim>\<open>try\<close>.
\<close>

datatype outcome = Next error | Json nat body | Rejected error

record cookie =
  c_name :: string
  c_value :: token
  maxAge :: nat
  httpOnly :: bool

record response =
  cookies :: "cookie list"
  cleared :: "string list"
  outcome :: outcome

record registerBody =
  rb_username :: "string option"
  rb_name :: "string option"
  rb_email :: "string option"
  rb_password :: "string option"
  rb_confirmPassword :: "string option"

record loginBody =
  lb_username :: "string option"
  lb_password :: "string option"

text \<open>
  The third-party libraries the controller calls, as parameters: bcryptjs
  (\<^verbatim>\<open>hash(password, 10)\<close>, \<^verbatim>\<open>compare\<close> on two strings) and Joi's email check.
\<close>

record libs =
  bcrypt_hash :: "string \<Rightarrow> string"
  bcrypt_compare_strings :: "string \<Rightarrow> string \<Rightarrow> bool"
  email_valid :: "string \<Rightarrow> bool"

section \<open>Input validation\<close>

definition is_lower :: "char \<Rightarrow> bool" where
  "is_lower c = (97 \<le> (of_char c :: nat) \<and> (of_char c :: nat) \<le> 122)"

definition is_upper :: "char \<Rightarrow> bool" where
  "is_upper c = (65 \<le> (of_char c :: nat) \<and> (of_char c :: nat) \<le> 90)"

definition is_digit :: "char \<Rightarrow> bool" where
  "is_digit c = (48 \<le> (of_char c :: nat) \<and> (of_char c :: nat) \<le> 57)"

text \<open>
  \<^verbatim>\<open>/^(?=.*[a-z])(?=.*[A-Z])(?=.*\d)(?=.*[@.#$!%*?&^])[A-Za-z\d@.#$!%*?&]{8,15}$/\<close>:
  four lookaheads (the last one also accepts the caret), then 8 to 15 characters of
  the class, which has no caret.
\<close>

definition passwordPattern :: "string \<Rightarrow> bool" where
  "passwordPattern p =
     (list_ex is_lower p \<and> list_ex is_upper p \<and> list_ex is_digit p \<and>
      list_ex (\<lambda>c. c \<in> set ''@.#$!%*?&^'') p \<and>
      list_all (\<lambda>c. is_lower c \<or> is_upper c \<or> is_digit c \<or> c \<in> set ''@.#$!%*?&'') p \<and>
      8 \<le> length p \<and> length p \<le> 15)"

text \<open>
  \<^verbatim>\<open>userRegisterSchema\<close>. A Joi string is never empty; \<^verbatim>\<open>confirmPassword\<close> is
  optional and, when present, equal to \<^verbatim>\<open>password\<close>.
\<close>

definition userRegisterSchema :: "libs \<Rightarrow> registerBody \<Rightarrow> bool" where
  "userRegisterSchema L b =
     ((case rb_username b of None \<Rightarrow> False | Some u \<Rightarrow> 3 \<le> length u \<and> length u \<le> 50) \<and>
      (case rb_name b of None \<Rightarrow> False | Some n \<Rightarrow> 1 \<le> length n \<and> length n \<le> 30) \<and>
      (case rb_email b of None \<Rightarrow> False | Some e \<Rightarrow> email_valid L e) \<and>
      (case rb_password b of None \<Rightarrow> False | Some p \<Rightarrow> passwordPattern p) \<and>
      (case rb_confirmPassword b of None \<Rightarrow> True | Some c \<Rightarrow> rb_password b = Some c))"

text \<open>\<^verbatim>\<open>userLoginSchema\<close>: the username is required, the password is not.\<close>

definition userLoginSchema :: "loginBody \<Rightarrow> bool" where
  "userLoginSchema b =
     ((case lb_username b of None \<Rightarrow> False | Some u \<Rightarrow> 3 \<le> length u \<and> length u \<le> 30) \<and>
      (case lb_password b of None \<Rightarrow> True | Some p \<Rightarrow> passwordPattern p))"

section \<open>The collections\<close>

text \<open>\<^verbatim>\<open>User.exists({ email })\<close> and \<^verbatim>\<open>User.exists({ username })\<close>.\<close>

definition User_exists_email :: "db \<Rightarrow> string \<Rightarrow> error + bool" where
  "User_exists_email s e =
     (if usersUp s then Inr (list_ex (\<lambda>u. u_email u = e) (users s)) else Inl MongoError)"

definition User_exists_username :: "db \<Rightarrow> string \<Rightarrow> error + bool" where
  "User_exists_username s n =
     (if usersUp s then Inr (list_ex (\<lambda>u. u_username u = n) (users s)) else Inl MongoError)"

text \<open>\<^verbatim>\<open>User.findOne({ username })\<close> and \<^verbatim>\<open>User.findOne({ _id: id })\<close>: the first match or null.\<close>

definition User_findOne_username :: "db \<Rightarrow> string \<Rightarrow> error + user option" where
  "User_findOne_username s n =
     (if usersUp s then Inr (find (\<lambda>u. u_username u = n) (users s)) else Inl MongoError)"

definition User_findOne_id :: "db \<Rightarrow> objectId \<Rightarrow> error + user option" where
  "User_findOne_id s i =
     (if usersUp s then Inr (find (\<lambda>u. u_id u = i) (users s)) else Inl MongoError)"

text \<open>\<^verbatim>\<open>new User({...}).save()\<close>: the document gets a fresh \<^verbatim>\<open>_id\<close>.\<close>

definition User_save :: "db \<Rightarrow> string \<Rightarrow> string \<Rightarrow> string \<Rightarrow> string \<Rightarrow> error + (db \<times> user)" where
  "User_save s username email name hashPassword =
     (if usersUp s
      then (let u = \<lparr>u_id = nextId s, u_username = username, u_name = name,
                       u_email = email, u_password = hashPassword\<rparr>
            in Inr (s\<lparr>users := users s @ [u], nextId := Suc (nextId s)\<rparr>, u))
      else Inl MongoError)"

text \<open>The first document with the given \<^verbatim>\<open>_id\<close> gets the new token.\<close>

fun set_token :: "objectId \<Rightarrow> token \<Rightarrow> refreshTokenDoc list \<Rightarrow> refreshTokenDoc list" where
  "set_token i t [] = []"
| "set_token i t (d # ds) =
     (if r_id d = i then d\<lparr>r_token := t\<rparr> # ds else d # set_token i t ds)"

text \<open>
  \<^verbatim>\<open>RefreshToken.updateOne({ _id: i }, { token: t }, { upsert })\<close>: the first document
  whose \<^verbatim>\<open>_id\<close> is \<open>i\<close> is updated; when there is none, one is inserted if
  \<^verbatim>\<open>upsert\<close> is set, and nothing happens otherwise.
\<close>

definition RefreshToken_updateOne :: "db \<Rightarrow> objectId \<Rightarrow> token \<Rightarrow> bool \<Rightarrow> error + db" where
  "RefreshToken_updateOne s i t upsert =
     (if tokensUp s
      then (if list_ex (\<lambda>d. r_id d = i) (tokens s)
            then Inr (s\<lparr>tokens := set_token i t (tokens s)\<rparr>)
            else if upsert
            then Inr (s\<lparr>tokens := tokens s @ [\<lparr>r_id = i, r_token = t, r_userId = None\<rparr>]\<rparr>)
            else Inr s)
      else Inl MongoError)"

fun delete_first :: "token \<Rightarrow> refreshTokenDoc list \<Rightarrow> refreshTokenDoc list" where
  "delete_first t [] = []"
| "delete_first t (d # ds) = (if r_token d = t then ds else d # delete_first t ds)"

text \<open>
  \<^verbatim>\<open>RefreshToken.deleteOne({ token: refreshToken })\<close>: the first document with that
  token is removed. Without a cookie the filter value is undefined, which no stored
  token equals (the schema requires the field).
\<close>

definition RefreshToken_deleteOne :: "db \<Rightarrow> token option \<Rightarrow> error + db" where
  "RefreshToken_deleteOne s c =
     (if tokensUp s
      then (case c of None \<Rightarrow> Inr s
            | Some t \<Rightarrow> Inr (s\<lparr>tokens := delete_first t (tokens s)\<rparr>))
      else Inl MongoError)"

text \<open>
  \<^verbatim>\<open>RefreshToken.findOne({ _id: id, token: t })\<close> builds a Mongoose query. The
  query runs only when it is awaited; until then it is an object, and every object is
  truthy.
\<close>

datatype query = Query objectId "token option"

definition RefreshToken_findOne :: "objectId \<Rightarrow> token option \<Rightarrow> query" where
  "RefreshToken_findOne i c = Query i c"

definition truthy :: "query \<Rightarrow> bool" where
  "truthy q = True"

section \<open>JWTService and userDTO\<close>

text \<open>
  Modelled from the spec: \<^verbatim>\<open>service/JWTService.js\<close> is not among the sources.
  \<open>issueAccess(subject, ttl)\<close> and \<open>issueRefresh(subject, ttl)\<close> sign a token for the
  subject with the access secret and the refresh secret, expiring \<open>ttl\<close> seconds after
  the time of signing.
\<close>

definition signAccessToken :: "objectId \<Rightarrow> nat \<Rightarrow> nat \<Rightarrow> token" where
  "signAccessToken i ttl now = Jwt ACCESS_TOKEN_SECRET i now (now + ttl)"

definition signRefreshToken :: "objectId \<Rightarrow> nat \<Rightarrow> nat \<Rightarrow> token" where
  "signRefreshToken i ttl now = Jwt REFRESH_TOKEN_SECRET i now (now + ttl)"

text \<open>
  Modelled from the spec: \<open>verifyRefresh(token)\<close> returns the subject, and fails if the
  signature does not match, the token is malformed, or \<open>now > expires-at\<close>; a token
  signed for the other purpose is rejected. A request without the cookie has no token
  to verify.
\<close>

fun verifyRefreshToken :: "nat \<Rightarrow> token option \<Rightarrow> error + objectId" where
  "verifyRefreshToken now (Some (Jwt k i iat ex)) =
     (if k = REFRESH_TOKEN_SECRET \<and> now \<le> ex then Inr i else Inl JsonWebTokenError)"
| "verifyRefreshToken now (Some (Malformed v)) = Inl JsonWebTokenError"
| "verifyRefreshToken now None = Inl JsonWebTokenError"

text \<open>
  Modelled from the spec: \<open>upsert(subject, refreshToken)\<close> of the Session Store, which
  \<^verbatim>\<open>JWTService.storeRefreshToken(token, userId)\<close> stands for: it replaces the user's
  session record or creates one if absent, and an unavailable store surfaces as a
  failure.
\<close>

definition storeRefreshToken :: "db \<Rightarrow> token \<Rightarrow> objectId \<Rightarrow> error + db" where
  "storeRefreshToken s t i = RefreshToken_updateOne s i t True"

text \<open>
  Modelled from the spec: \<^verbatim>\<open>dto/user.js\<close> is not among the sources. \<open>projectPublic\<close>
  copies the public fields of the user record and drops the password hash; like the
  \<^verbatim>\<open>BlogDTO\<close> constructor it reads properties of its argument, which throws a
  TypeError on null.
\<close>

fun userDTO :: "user option \<Rightarrow> error + userDto" where
  "userDTO None = Inl TypeError"
| "userDTO (Some u) =
     Inr \<lparr>dto_id = u_id u, dto_username = u_username u, dto_email = u_email u\<rparr>"

section \<open>The handlers\<close>

definition reply :: "outcome \<Rightarrow> response" where
  "reply out = \<lparr>cookies = [], cleared = [], outcome = out\<rparr>"

definition unauthorized :: error where
  "unauthorized = ErrorObject 401 [(''message'', ''unauthorized'')]"

text \<open>The two cookies of \<^verbatim>\<open>register\<close> and \<^verbatim>\<open>login\<close>: both with \<^verbatim>\<open>1000 * 60 * 60 * 24\<close>.\<close>

definition login_cookies :: "token \<Rightarrow> token \<Rightarrow> cookie list" where
  "login_cookies accessToken refreshToken =
     [\<lparr>c_name = ''accessToken'', c_value = accessToken,
       maxAge = 1000 * 60 * 60 * 24, httpOnly = True\<rparr>,
      \<lparr>c_name = ''refreshToken'', c_value = refreshToken,
       maxAge = 1000 * 60 * 60 * 24, httpOnly = True\<rparr>]"

text \<open>The two cookies of \<^verbatim>\<open>refresh\<close>: the second with \<^verbatim>\<open>1000 * 60 * 6024\<close>.\<close>

definition refresh_cookies :: "token \<Rightarrow> token \<Rightarrow> cookie list" where
  "refresh_cookies accessToken refreshToken =
     [\<lparr>c_name = ''accessToken'', c_value = accessToken,
       maxAge = 1000 * 60 * 60 * 24, httpOnly = True\<rparr>,
      \<lparr>c_name = ''refreshToken'', c_value = refreshToken,
       maxAge = 1000 * 60 * 6024, httpOnly = True\<rparr>]"

text \<open>
  \<^verbatim>\<open>res.status(n).json({ user: new userDTO(user), auth: true })\<close> after the cookies
  \<open>cs\<close> were set; the constructor may throw outside every \<^verbatim>\<open>try\<close>.
\<close>

definition send_user :: "cookie list \<Rightarrow> nat \<Rightarrow> user option \<Rightarrow> response" where
  "send_user cs n user =
     (case userDTO user of
        Inl e \<Rightarrow> \<lparr>cookies = cs, cleared = [], outcome = Rejected e\<rparr>
      | Inr d \<Rightarrow> \<lparr>cookies = cs, cleared = [],
                  outcome = Json n \<lparr>b_user = Some d, b_auth = True\<rparr>\<rparr>)"

text \<open>
  \<^verbatim>\<open>register\<close>. Both existence queries run before either result is looked at; the
  email is looked at first. The refresh token is stored outside every \<^verbatim>\<open>try\<close>.
\<close>

definition register :: "libs \<Rightarrow> nat \<Rightarrow> registerBody \<Rightarrow> db \<Rightarrow> db \<times> response" where
  "register L now b s =
     (if \<not> userRegisterSchema L b then (s, reply (Next ValidationError))
      else
        case (rb_username b, rb_name b, rb_email b, rb_password b) of
          (Some username, Some name, Some email, Some password) \<Rightarrow>
            (case User_exists_email s email of
               Inl e \<Rightarrow> (s, reply (Next e))
             | Inr emailInUse \<Rightarrow>
                 (case User_exists_username s username of
                    Inl e \<Rightarrow> (s, reply (Next e))
                  | Inr usernameInUse \<Rightarrow>
                      if emailInUse
                      then (s, reply (Next (ErrorObject 409
                              [(''message'', ''Email already Register, use another email!'')])))
                      else if usernameInUse
                      then (s, reply (Next (ErrorObject 409
                              [(''message'', ''Username is not available , choose another username'')])))
                      else
                        (let hashPassword = bcrypt_hash L password in
                         case User_save s username email name hashPassword of
                           Inl e \<Rightarrow> (s, reply (Next e))
                         | Inr (s1, user) \<Rightarrow>
                             (let accessToken = signAccessToken (u_id user) (30 * 60) now;
                                  refreshToken = signRefreshToken (u_id user) (60 * 60) now
                              in case storeRefreshToken s1 refreshToken (u_id user) of
                                   Inl e \<Rightarrow> (s1, reply (Rejected e))
                                 | Inr s2 \<Rightarrow>
                                     (s2, send_user (login_cookies accessToken refreshToken)
                                            201 (Some user))))))
        | _ \<Rightarrow> (s, reply (Next ValidationError)))"

text \<open>
  \<^verbatim>\<open>bcrypt.compare(password, user.password)\<close>: bcryptjs throws "Illegal arguments"
  when the first argument is not a string.
\<close>

definition bcrypt_compare :: "libs \<Rightarrow> string option \<Rightarrow> string \<Rightarrow> error + bool" where
  "bcrypt_compare L password hash =
     (case password of
        None \<Rightarrow> Inl IllegalArguments
      | Some p \<Rightarrow> Inr (bcrypt_compare_strings L p hash))"

definition login :: "libs \<Rightarrow> nat \<Rightarrow> loginBody \<Rightarrow> db \<Rightarrow> db \<times> response" where
  "login L now b s =
     (if \<not> userLoginSchema b then (s, reply (Next ValidationError))
      else
        case lb_username b of
          None \<Rightarrow> (s, reply (Next ValidationError))
        | Some username \<Rightarrow>
            (case User_findOne_username s username of
               Inl e \<Rightarrow> (s, reply (Next e))
             | Inr None \<Rightarrow>
                 (s, reply (Next (ErrorObject 401 [(''mesasge'', ''Invalid username'')])))
             | Inr (Some user) \<Rightarrow>
                 (case bcrypt_compare L (lb_password b) (u_password user) of
                    Inl e \<Rightarrow> (s, reply (Next e))
                  | Inr match \<Rightarrow>
                      if \<not> match
                      then (s, reply (Next (ErrorObject 401 [(''message'', ''Invalid password'')])))
                      else
                        (let accessToken = signAccessToken (u_id user) (30 * 60) now;
                             refreshToken = signRefreshToken (u_id user) (60 * 60) now
                         in case RefreshToken_updateOne s (u_id user) refreshToken True of
                              Inl e \<Rightarrow> (s, reply (Next e))
                            | Inr s1 \<Rightarrow>
                                (s1, send_user (login_cookies accessToken refreshToken)
                                       200 (Some user))))))"

definition logout :: "token option \<Rightarrow> db \<Rightarrow> db \<times> response" where
  "logout refreshToken s =
     (case RefreshToken_deleteOne s refreshToken of
        Inl e \<Rightarrow> (s, reply (Next e))
      | Inr s1 \<Rightarrow>
          (s1, \<lparr>cookies = [], cleared = [''accessToken'', ''refreshToken''],
                outcome = Json 200 \<lparr>b_user = None, b_auth = False\<rparr>\<rparr>))"

text \<open>
  \<^verbatim>\<open>refresh\<close>. \<^verbatim>\<open>match\<close> is the query that \<^verbatim>\<open>RefreshToken.findOne\<close> returns: the
  source does not await it.
\<close>

definition refresh :: "nat \<Rightarrow> token option \<Rightarrow> db \<Rightarrow> db \<times> response" where
  "refresh now orignalRefreshToken s =
     (case verifyRefreshToken now orignalRefreshToken of
        Inl e \<Rightarrow> (s, reply (Next unauthorized))
      | Inr i \<Rightarrow>
          (let match = RefreshToken_findOne i orignalRefreshToken in
           if \<not> truthy match then (s, reply (Next unauthorized))
           else
             (let accessToken = signAccessToken i (30 * 60) now;
                  refreshToken = signRefreshToken i (60 * 60) now
              in case RefreshToken_updateOne s i refreshToken False of
                   Inl e \<Rightarrow> (s, reply (Next e))
                 | Inr s1 \<Rightarrow>
                     (case User_findOne_id s1 i of
                        Inl e \<Rightarrow>
                          (s1, \<lparr>cookies = refresh_cookies accessToken refreshToken,
                                cleared = [], outcome = Rejected e\<rparr>)
                      | Inr user \<Rightarrow>
                          (s1, send_user (refresh_cookies accessToken refreshToken)
                                 200 user)))))"

section \<open>Sequences of requests\<close>

text \<open>The four routes of the router, and a run of requests from a database.\<close>

datatype request =
    Register nat registerBody
  | Login nat loginBody
  | Logout "token option"
  | Refresh nat "token option"

fun handle :: "libs \<Rightarrow> request \<Rightarrow> db \<Rightarrow> db \<times> response" where
  "handle L (Register now b) s = register L now b s"
| "handle L (Login now b) s = login L now b s"
| "handle L (Logout c) s = logout c s"
| "handle L (Refresh now c) s = refresh now c s"

fun run :: "libs \<Rightarrow> request list \<Rightarrow> db \<Rightarrow> db" where
  "run L [] s = s"
| "run L (r # rs) s = run L rs (fst (handle L r s))"

section \<open>Session records and failed operations\<close>

text \<open>
  The session records of a user are the documents of the tokens collection whose
  \<^verbatim>\<open>_id\<close> is the user's: the key of every filter the controller writes.
\<close>

definition session_records :: "db \<Rightarrow> objectId \<Rightarrow> refreshTokenDoc list" where
  "session_records s i = filter (\<lambda>d. r_id d = i) (tokens s)"

text \<open>No two documents of the tokens collection share their \<^verbatim>\<open>_id\<close>.\<close>

definition one_record_per_user :: "db \<Rightarrow> bool" where
  "one_record_per_user s = distinct (map r_id (tokens s))"

text \<open>An operation failed when it did not send a response.\<close>

fun failed :: "outcome \<Rightarrow> bool" where
  "failed (Next e) = True"
| "failed (Rejected e) = True"
| "failed (Json n b) = False"

section \<open>A sample user\<close>

text \<open>
  Concrete libraries, requests and databases on which the handlers are run: a bcrypt
  stand-in that prefixes the password, and the user alice with the ObjectId 1.
\<close>

definition demo_libs :: libs where
  "demo_libs = \<lparr>bcrypt_hash = (\<lambda>p. ''$2a$10$'' @ p),
           bcrypt_compare_strings = (\<lambda>p h. h = ''$2a$10$'' @ p),
           email_valid = (\<lambda>e. CHR 0x40 \<in> set e)\<rparr>"

definition db0 :: db where
  "db0 = \<lparr>users = [], tokens = [], usersUp = True, tokensUp = True, nextId = 1\<rparr>"

definition alice_body :: registerBody where
  "alice_body = \<lparr>rb_username = Some ''alice'', rb_name = Some ''Alice'', rb_email = Some ''alice@x.com'',
     rb_password = Some ''Passw0rd!'', rb_confirmPassword = Some ''Passw0rd!''\<rparr>"

definition alice_user :: user where
  "alice_user = \<lparr>u_id = 1, u_username = ''alice'', u_name = ''Alice'',
     u_email = ''alice@x.com'', u_password = ''$2a$10$Passw0rd!''\<rparr>"

definition alice_dto :: userDto where
  "alice_dto = \<lparr>dto_id = 1, dto_username = ''alice'', dto_email = ''alice@x.com''\<rparr>"

definition db_alice :: "token list \<Rightarrow> db" where
  "db_alice ts = \<lparr>users = [alice_user],
      tokens = map (\<lambda>t. \<lparr>r_id = 1, r_token = t, r_userId = None\<rparr>) ts,
      usersUp = True, tokensUp = True, nextId = 2\<rparr>"

section \<open>Running the handlers on the sample user\<close>

lemmas store_defs = User_exists_email_def User_exists_username_def User_findOne_username_def
  User_findOne_id_def User_save_def RefreshToken_updateOne_def RefreshToken_deleteOne_def
  RefreshToken_findOne_def truthy_def storeRefreshToken_def signAccessToken_def
  signRefreshToken_def

lemmas demo_defs = demo_libs_def db0_def alice_body_def alice_user_def alice_dto_def db_alice_def

lemma passwordPattern_demo: "passwordPattern ''Passw0rd!''"
  by (simp add: passwordPattern_def is_lower_def is_upper_def is_digit_def)

lemma alice_body_valid: "userRegisterSchema demo_libs alice_body"
  by (simp add: userRegisterSchema_def demo_defs passwordPattern_demo)

lemma register_alice:
  "register demo_libs 0 alice_body db0 =
     (db_alice [Jwt REFRESH_TOKEN_SECRET 1 0 3600],
      \<lparr>cookies = login_cookies (Jwt ACCESS_TOKEN_SECRET 1 0 1800) (Jwt REFRESH_TOKEN_SECRET 1 0 3600),
       cleared = [], outcome = Json 201 \<lparr>b_user = Some alice_dto, b_auth = True\<rparr>\<rparr>)"
  using alice_body_valid
  by (simp add: register_def store_defs send_user_def demo_defs Let_def)

lemma login_alice:
  "login demo_libs now \<lparr>lb_username = Some ''alice'', lb_password = Some ''Passw0rd!''\<rparr> (db_alice ts) =
     (db_alice (if ts = [] then [Jwt REFRESH_TOKEN_SECRET 1 now (now + 3600)] else Jwt REFRESH_TOKEN_SECRET 1 now (now + 3600) # tl ts),
      \<lparr>cookies = login_cookies (Jwt ACCESS_TOKEN_SECRET 1 now (now + 1800)) (Jwt REFRESH_TOKEN_SECRET 1 now (now + 3600)),
       cleared = [], outcome = Json 200 \<lparr>b_user = Some alice_dto, b_auth = True\<rparr>\<rparr>)"
  by (cases ts) (simp_all add: login_def userLoginSchema_def passwordPattern_demo store_defs send_user_def bcrypt_compare_def demo_defs Let_def)

lemma refresh_alice:
  "now \<le> ex \<Longrightarrow> refresh now (Some (Jwt REFRESH_TOKEN_SECRET 1 iat ex)) (db_alice ts) =
     (db_alice (if ts = [] then [] else Jwt REFRESH_TOKEN_SECRET 1 now (now + 3600) # tl ts),
      \<lparr>cookies = refresh_cookies (Jwt ACCESS_TOKEN_SECRET 1 now (now + 1800)) (Jwt REFRESH_TOKEN_SECRET 1 now (now + 3600)),
       cleared = [], outcome = Json 200 \<lparr>b_user = Some alice_dto, b_auth = True\<rparr>\<rparr>)"
  by (cases ts) (simp_all add: refresh_def store_defs send_user_def demo_defs Let_def)

lemma logout_alice:
  "logout (Some t) (db_alice [t]) =
     (db_alice [], \<lparr>cookies = [], cleared = [''accessToken'', ''refreshToken''],
                outcome = Json 200 \<lparr>b_user = None, b_auth = False\<rparr>\<rparr>)"
  by (simp add: logout_def store_defs demo_defs)

section \<open>One session record per user\<close>

lemma map_r_id_set_token: "map r_id (set_token i t ds) = map r_id ds"
  by (induction ds) simp_all

lemma distinct_delete_first:
  "distinct (map r_id ds) \<Longrightarrow> distinct (map r_id (delete_first t ds))"
proof (induction ds)
  case Nil
  then show ?case by simp
next
  case (Cons d ds)
  have sub: "set (delete_first t ds) \<subseteq> set ds" for ds
    by (induction ds) auto
  from Cons sub[of ds] show ?case by auto
qed

lemma updateOne_one_record:
  assumes "RefreshToken_updateOne s i t up = Inr s1" and "one_record_per_user s"
  shows "one_record_per_user s1"
  using assms
  by (auto simp: RefreshToken_updateOne_def one_record_per_user_def map_r_id_set_token
      list_ex_iff split: if_splits)

lemma updateOne_users: "RefreshToken_updateOne s i t up = Inr s1 \<Longrightarrow> users s1 = users s"
  by (auto simp: RefreshToken_updateOne_def split: if_splits)

lemma filter_set_token:
  "distinct (map r_id ds) \<Longrightarrow> i \<in> r_id ` set ds \<Longrightarrow>
   length (filter (\<lambda>d. r_id d = i) (set_token i t ds)) = Suc 0"
  by (induction ds) (auto simp: filter_empty_conv image_iff)

lemma upsert_exactly_one:
  assumes "RefreshToken_updateOne s i t True = Inr s1" and "one_record_per_user s"
  shows "length (session_records s1 i) = Suc 0"
  using assms
  by (auto simp: RefreshToken_updateOne_def one_record_per_user_def session_records_def
      list_ex_iff filter_set_token filter_empty_conv split: if_splits)

lemma deleteOne_one_record:
  assumes "RefreshToken_deleteOne s c = Inr s1" and "one_record_per_user s"
  shows "one_record_per_user s1"
  using assms
  by (auto simp: RefreshToken_deleteOne_def one_record_per_user_def distinct_delete_first
      split: if_splits option.splits)

lemma one_record_tokens_cong:
  "tokens s1 = tokens s \<Longrightarrow> one_record_per_user s1 = one_record_per_user s"
  by (simp add: one_record_per_user_def)

lemma User_save_tokens:
  "User_save s un em nm hp = Inr (s1, u) \<Longrightarrow> tokens s1 = tokens s"
  by (auto simp: User_save_def Let_def split: if_splits)

lemma register_result:
  "(\<exists>e. register L now b s = (s, reply (Next e))) \<or>
   (\<exists>un em nm hp s1 u e. User_save s un em nm hp = Inr (s1, u) \<and>
      storeRefreshToken s1 (signRefreshToken (u_id u) (60 * 60) now) (u_id u) = Inl e \<and>
      register L now b s = (s1, reply (Rejected e))) \<or>
   (\<exists>un em nm hp s1 u s2. User_save s un em nm hp = Inr (s1, u) \<and>
      storeRefreshToken s1 (signRefreshToken (u_id u) (60 * 60) now) (u_id u) = Inr s2 \<and>
      register L now b s =
        (s2, send_user (login_cookies (signAccessToken (u_id u) (30 * 60) now)
                          (signRefreshToken (u_id u) (60 * 60) now)) 201 (Some u)))"
  by (simp add: register_def Let_def split: option.split sum.split prod.split) blast

lemma login_result:
  "(\<exists>e. login L now b s = (s, reply (Next e))) \<or>
   (\<exists>u s1. RefreshToken_updateOne s (u_id u) (signRefreshToken (u_id u) (60 * 60) now) True = Inr s1 \<and>
      login L now b s =
        (s1, send_user (login_cookies (signAccessToken (u_id u) (30 * 60) now)
                          (signRefreshToken (u_id u) (60 * 60) now)) 200 (Some u)))"
  by (simp add: login_def Let_def split: option.split sum.split prod.split) blast

lemma refresh_result:
  "(\<exists>e. refresh now c s = (s, reply (Next e))) \<or>
   (\<exists>i s1 r. RefreshToken_updateOne s i (signRefreshToken i (60 * 60) now) False = Inr s1 \<and>
      refresh now c s = (s1, r))"
  by (simp add: refresh_def Let_def split: option.split sum.split prod.split) blast

lemma send_user_Some_outcome:
  "outcome (send_user cs n (Some u)) = Json m \<lparr>b_user = Some d, b_auth = a\<rparr> \<Longrightarrow> dto_id d = u_id u"
  by (auto simp: send_user_def)

lemma register_one_record:
  assumes "one_record_per_user s"
  shows "one_record_per_user (fst (register L now b s))"
  using register_result[of L now b s] assms
  by (auto simp: storeRefreshToken_def one_record_tokens_cong[OF User_save_tokens]
      dest: updateOne_one_record)

lemma login_one_record:
  assumes "one_record_per_user s"
  shows "one_record_per_user (fst (login L now b s))"
  using login_result[of L now b s] assms by (auto dest: updateOne_one_record)

lemma logout_one_record:
  assumes "one_record_per_user s"
  shows "one_record_per_user (fst (logout c s))"
  using assms deleteOne_one_record[of s c]
  by (auto simp: logout_def split: sum.splits)

lemma refresh_one_record:
  assumes "one_record_per_user s"
  shows "one_record_per_user (fst (refresh now c s))"
  using refresh_result[of now c s] assms by (auto dest: updateOne_one_record)

lemma register_success_one_record:
  assumes inv: "one_record_per_user s"
    and ok: "outcome (snd (register L now b s)) = Json n \<lparr>b_user = Some d, b_auth = a\<rparr>"
  shows "length (session_records (fst (register L now b s)) (dto_id d)) = 1"
proof -
  from register_result[of L now b s] ok
  obtain un em nm hp s1 u s2 where
    save: "User_save s un em nm hp = Inr (s1, u)" and
    store: "RefreshToken_updateOne s1 (u_id u) (signRefreshToken (u_id u) (60 * 60) now) True = Inr s2" and
    res: "register L now b s =
        (s2, send_user (login_cookies (signAccessToken (u_id u) (30 * 60) now)
                          (signRefreshToken (u_id u) (60 * 60) now)) 201 (Some u))"
    by (auto simp: reply_def storeRefreshToken_def)
  from save inv have "one_record_per_user s1"
    by (simp add: one_record_tokens_cong[OF User_save_tokens])
  with store have "length (session_records s2 (u_id u)) = Suc 0"
    by (rule upsert_exactly_one)
  moreover from ok res have "dto_id d = u_id u"
    by (auto dest: send_user_Some_outcome)
  ultimately show ?thesis using res by simp
qed

lemma login_success_one_record:
  assumes inv: "one_record_per_user s"
    and ok: "outcome (snd (login L now b s)) = Json n \<lparr>b_user = Some d, b_auth = a\<rparr>"
  shows "length (session_records (fst (login L now b s)) (dto_id d)) = 1"
proof -
  from login_result[of L now b s] ok
  obtain u s1 where
    store: "RefreshToken_updateOne s (u_id u) (signRefreshToken (u_id u) (60 * 60) now) True = Inr s1" and
    res: "login L now b s =
        (s1, send_user (login_cookies (signAccessToken (u_id u) (30 * 60) now)
                          (signRefreshToken (u_id u) (60 * 60) now)) 200 (Some u))"
    by (auto simp: reply_def)
  from store inv have "length (session_records s1 (u_id u)) = Suc 0"
    by (rule upsert_exactly_one)
  moreover from ok res have "dto_id d = u_id u"
    by (auto dest: send_user_Some_outcome)
  ultimately show ?thesis using res by simp
qed

text \<open>
  The invariant holds along every run of requests, so a user never has two session
  records; from the empty database in particular.
\<close>

lemma handle_one_record:
  "one_record_per_user s \<Longrightarrow> one_record_per_user (fst (handle L r s))"
  by (cases r)
    (simp_all add: register_one_record login_one_record logout_one_record refresh_one_record)

lemma run_one_record:
  "one_record_per_user s \<Longrightarrow> one_record_per_user (run L rs s)"
  by (induction rs arbitrary: s) (simp_all add: handle_one_record)

lemma distinct_ids_at_most_one:
  "distinct (map r_id ds) \<Longrightarrow> length (filter (\<lambda>d. r_id d = i) ds) \<le> Suc 0"
  by (induction ds) (auto simp: filter_empty_conv image_iff)

lemma one_record_at_most_one:
  "one_record_per_user s \<Longrightarrow> length (session_records s i) \<le> Suc 0"
  by (simp add: one_record_per_user_def session_records_def distinct_ids_at_most_one)

lemma run_from_empty_at_most_one:
  "length (session_records (run L rs db0) i) \<le> Suc 0"
proof -
  have "one_record_per_user db0"
    by (simp add: one_record_per_user_def db0_def)
  then have "one_record_per_user (run L rs db0)"
    by (rule run_one_record)
  then show ?thesis
    by (rule one_record_at_most_one)
qed

section \<open>Facts about the collections and the verifier\<close>

lemma User_save_tokensUp:
  "User_save s un em nm hp = Inr (s1, u) \<Longrightarrow> tokensUp s1 = tokensUp s"
  by (auto simp: User_save_def Let_def split: if_splits)

lemma updateOne_down: "\<not> tokensUp s \<Longrightarrow> RefreshToken_updateOne s i t up = Inl MongoError"
  by (simp add: RefreshToken_updateOne_def)

lemma verifyRefreshToken_Inr_iff:
  "verifyRefreshToken now c = Inr i \<longleftrightarrow>
     (\<exists>iat ex. c = Some (Jwt REFRESH_TOKEN_SECRET i iat ex) \<and> now \<le> ex)"
  by (cases "(now, c)" rule: verifyRefreshToken.cases) auto

lemma verifyRefreshToken_Inl_iff:
  "(\<exists>e. verifyRefreshToken now c = Inl e) \<longleftrightarrow>
     c = None \<or> (\<exists>v. c = Some (Malformed v)) \<or>
     (\<exists>k i iat ex. c = Some (Jwt k i iat ex) \<and> (k \<noteq> REFRESH_TOKEN_SECRET \<or> ex < now))"
  by (cases "(now, c)" rule: verifyRefreshToken.cases) auto

lemma delete_first_count:
  "length (filter (\<lambda>d. r_token d = t) (delete_first t ds)) =
   length (filter (\<lambda>d. r_token d = t) ds) - 1"
  by (induction ds) auto

lemma delete_first_absent:
  "\<not> list_ex (\<lambda>d. r_token d = t) ds \<Longrightarrow> delete_first t ds = ds"
  by (induction ds) auto

lemma logout_absent_token_unchanged:
  "tokensUp s \<Longrightarrow> \<not> list_ex (\<lambda>d. Some (r_token d) = c) (tokens s) \<Longrightarrow>
   fst (logout c s) = s"
  by (cases c) (simp_all add: logout_def RefreshToken_deleteOne_def delete_first_absent)

text \<open>
  The answer of \<^verbatim>\<open>refresh\<close> to a verified token does not depend on the tokens
  collection: the unawaited query is truthy whatever the collection holds.
\<close>

lemma refresh_ignores_store:
  assumes "verifyRefreshToken now c = Inr i" and "tokensUp s" and "usersUp s"
    and "find (\<lambda>u. u_id u = i) (users s) = Some u"
  shows "snd (refresh now c s) =
           send_user (refresh_cookies (signAccessToken i (30 * 60) now)
                        (signRefreshToken i (60 * 60) now)) 200 (Some u)"
  using assms
  by (simp add: refresh_def Let_def truthy_def RefreshToken_updateOne_def User_findOne_id_def)

section \<open>Refresh with a superseded token\<close>

text \<open>
  C1. The claim is that a superseded refresh token is rejected with 401 and no state
  change. The code at that input: alice registers at time 0 and gets the refresh
  token T1; \<^verbatim>\<open>refresh\<close> at time 10 with T1 replaces the record by T2; \<^verbatim>\<open>refresh\<close>
  at time 20 with T1 again answers 200 with auth true, sets new cookies and replaces
  the record once more.
\<close>
theorem refresh_accepts_superseded_token:
  "register demo_libs 0 alice_body db0 =
     (db_alice [Jwt REFRESH_TOKEN_SECRET 1 0 3600],
      \<lparr>cookies = login_cookies (Jwt ACCESS_TOKEN_SECRET 1 0 1800) (Jwt REFRESH_TOKEN_SECRET 1 0 3600),
       cleared = [], outcome = Json 201 \<lparr>b_user = Some alice_dto, b_auth = True\<rparr>\<rparr>) \<and>
   refresh 10 (Some (Jwt REFRESH_TOKEN_SECRET 1 0 3600)) (db_alice [Jwt REFRESH_TOKEN_SECRET 1 0 3600]) =
     (db_alice [Jwt REFRESH_TOKEN_SECRET 1 10 3610],
      \<lparr>cookies = refresh_cookies (Jwt ACCESS_TOKEN_SECRET 1 10 1810) (Jwt REFRESH_TOKEN_SECRET 1 10 3610),
       cleared = [], outcome = Json 200 \<lparr>b_user = Some alice_dto, b_auth = True\<rparr>\<rparr>) \<and>
   refresh 20 (Some (Jwt REFRESH_TOKEN_SECRET 1 0 3600)) (db_alice [Jwt REFRESH_TOKEN_SECRET 1 10 3610]) =
     (db_alice [Jwt REFRESH_TOKEN_SECRET 1 20 3620],
      \<lparr>cookies = refresh_cookies (Jwt ACCESS_TOKEN_SECRET 1 20 1820) (Jwt REFRESH_TOKEN_SECRET 1 20 3620),
       cleared = [], outcome = Json 200 \<lparr>b_user = Some alice_dto, b_auth = True\<rparr>\<rparr>)"
  using register_alice
    refresh_alice [where now = 10 and ex = 3600 and iat = 0
       and ts = "[Jwt REFRESH_TOKEN_SECRET 1 0 3600]"]
    refresh_alice [where now = 20 and ex = 3600 and iat = 0
       and ts = "[Jwt REFRESH_TOKEN_SECRET 1 10 3610]"]
  by simp

section \<open>One record per user\<close>

text \<open>
  C2. The claim is that \<^verbatim>\<open>refresh\<close> leaves the user with exactly one record. The
  code at a failing input: after alice's logout has deleted her record, \<^verbatim>\<open>refresh\<close>
  with her still unexpired token answers 200 with auth true and leaves her with no
  record.
\<close>
theorem refresh_without_record_leaves_none:
  "logout (Some (Jwt REFRESH_TOKEN_SECRET 1 0 3600)) (db_alice [Jwt REFRESH_TOKEN_SECRET 1 0 3600]) =
     (db_alice [], \<lparr>cookies = [], cleared = [''accessToken'', ''refreshToken''],
                outcome = Json 200 \<lparr>b_user = None, b_auth = False\<rparr>\<rparr>) \<and>
   outcome (snd (refresh 20 (Some (Jwt REFRESH_TOKEN_SECRET 1 0 3600)) (db_alice []))) =
     Json 200 \<lparr>b_user = Some alice_dto, b_auth = True\<rparr> \<and>
   session_records (fst (refresh 20 (Some (Jwt REFRESH_TOKEN_SECRET 1 0 3600)) (db_alice []))) 1 = []"
  using logout_alice [where t = "Jwt REFRESH_TOKEN_SECRET 1 0 3600"]
    refresh_alice [where now = 20 and ex = 3600 and iat = 0 and ts = "[]"]
  by (simp add: session_records_def db_alice_def)

section \<open>Refresh after logout\<close>

text \<open>
  C3. The claim is that after logout a refresh with the same token fails with 401.
  The code at that input: alice logs in at time 5 and gets the token T, \<^verbatim>\<open>logout\<close>
  with T deletes her record, and \<^verbatim>\<open>refresh\<close> at time 20 with T answers 200 with
  auth true and sets new cookies.
\<close>
theorem refresh_after_logout_succeeds:
  "login demo_libs 5 \<lparr>lb_username = Some ''alice'', lb_password = Some ''Passw0rd!''\<rparr> (db_alice []) =
     (db_alice [Jwt REFRESH_TOKEN_SECRET 1 5 3605],
      \<lparr>cookies = login_cookies (Jwt ACCESS_TOKEN_SECRET 1 5 1805) (Jwt REFRESH_TOKEN_SECRET 1 5 3605),
       cleared = [], outcome = Json 200 \<lparr>b_user = Some alice_dto, b_auth = True\<rparr>\<rparr>) \<and>
   fst (logout (Some (Jwt REFRESH_TOKEN_SECRET 1 5 3605)) (db_alice [Jwt REFRESH_TOKEN_SECRET 1 5 3605])) =
     db_alice [] \<and>
   refresh 20 (Some (Jwt REFRESH_TOKEN_SECRET 1 5 3605)) (db_alice []) =
     (db_alice [],
      \<lparr>cookies = refresh_cookies (Jwt ACCESS_TOKEN_SECRET 1 20 1820) (Jwt REFRESH_TOKEN_SECRET 1 20 3620),
       cleared = [], outcome = Json 200 \<lparr>b_user = Some alice_dto, b_auth = True\<rparr>\<rparr>)"
  using login_alice [where now = 5 and ts = "[]"]
    logout_alice [where t = "Jwt REFRESH_TOKEN_SECRET 1 5 3605"]
    refresh_alice [where now = 20 and ex = 3605 and iat = 5 and ts = "[]"]
  by simp

section \<open>Refresh with a token that fails verification\<close>

text \<open>
  C4. For every refresh request whose presented token fails verification (bad
  signature, malformed, expired, or no cookie at all), \<^verbatim>\<open>refresh\<close> calls
  \<^verbatim>\<open>next\<close> with status 401 and message "unauthorized", leaves the database as
  it was, and sets no cookie.
\<close>
theorem refresh_invalid_token_unauthorized:
  assumes "verifyRefreshToken now c = Inl e"
  shows "refresh now c s =
     (s, \<lparr>cookies = [], cleared = [],
          outcome = Next (ErrorObject 401 [(''message'', ''unauthorized'')])\<rparr>)"
  using assms by (simp add: refresh_def reply_def unauthorized_def)

theorem refresh_invalid_token_unauthorized_witness:
  "verifyRefreshToken 4000 (Some (Jwt REFRESH_TOKEN_SECRET 1 0 3600)) = Inl JsonWebTokenError \<and>
   refresh 4000 (Some (Jwt REFRESH_TOKEN_SECRET 1 0 3600)) (db_alice [Jwt REFRESH_TOKEN_SECRET 1 0 3600]) =
     (db_alice [Jwt REFRESH_TOKEN_SECRET 1 0 3600],
      \<lparr>cookies = [], cleared = [],
       outcome = Next (ErrorObject 401 [(''message'', ''unauthorized'')])\<rparr>)"
  using refresh_invalid_token_unauthorized
    [where now = 4000 and c = "Some (Jwt REFRESH_TOKEN_SECRET 1 0 3600)"
       and e = JsonWebTokenError and s = "db_alice [Jwt REFRESH_TOKEN_SECRET 1 0 3600]"]
  by simp

section \<open>Logout twice\<close>

text \<open>
  C5. Logout is idempotent: while the tokens collection can be reached, for every
  presented cookie (also none, or a token with no record) \<^verbatim>\<open>logout\<close> answers
  status 200 with user null and auth false and clears both cookies, and a second call
  with the same cookie on the resulting database answers the same.
\<close>
theorem logout_idempotent:
  assumes "tokensUp s"
  shows "snd (logout c s) =
           \<lparr>cookies = [], cleared = [''accessToken'', ''refreshToken''],
            outcome = Json 200 \<lparr>b_user = None, b_auth = False\<rparr>\<rparr> \<and>
         snd (logout c (fst (logout c s))) =
           \<lparr>cookies = [], cleared = [''accessToken'', ''refreshToken''],
            outcome = Json 200 \<lparr>b_user = None, b_auth = False\<rparr>\<rparr>"
  using assms by (cases c) (simp_all add: logout_def RefreshToken_deleteOne_def)

theorem logout_idempotent_witness:
  "tokensUp (db_alice [Jwt REFRESH_TOKEN_SECRET 1 0 3600]) \<and>
   logout (Some (Jwt REFRESH_TOKEN_SECRET 1 0 3600)) (db_alice [Jwt REFRESH_TOKEN_SECRET 1 0 3600]) =
     (db_alice [], \<lparr>cookies = [], cleared = [''accessToken'', ''refreshToken''],
            outcome = Json 200 \<lparr>b_user = None, b_auth = False\<rparr>\<rparr>) \<and>
   logout (Some (Jwt REFRESH_TOKEN_SECRET 1 0 3600)) (db_alice []) =
     (db_alice [], \<lparr>cookies = [], cleared = [''accessToken'', ''refreshToken''],
            outcome = Json 200 \<lparr>b_user = None, b_auth = False\<rparr>\<rparr>)"
  using logout_idempotent
    [where s = "db_alice [Jwt REFRESH_TOKEN_SECRET 1 0 3600]"
       and c = "Some (Jwt REFRESH_TOKEN_SECRET 1 0 3600)"]
  by (simp add: logout_def RefreshToken_deleteOne_def db_alice_def)

section \<open>The order of the duplicate checks\<close>

text \<open>
  C6. On a valid registration request with the users collection reachable, an email
  already in use is reported with status 409 and the email message, whether or not the
  username is in use too; a username in use is reported with status 409 and the
  username message only when the email is free.
\<close>
theorem register_conflict_email_first:
  assumes "userRegisterSchema L b" and "usersUp s"
    and "rb_email b = Some e" and "rb_username b = Some n"
  shows "(list_ex (\<lambda>u. u_email u = e) (users s) \<longrightarrow>
            register L now b s =
              (s, reply (Next (ErrorObject 409
                    [(''message'', ''Email already Register, use another email!'')])))) \<and>
         (\<not> list_ex (\<lambda>u. u_email u = e) (users s) \<and> list_ex (\<lambda>u. u_username u = n) (users s) \<longrightarrow>
            register L now b s =
              (s, reply (Next (ErrorObject 409
                    [(''message'', ''Username is not available , choose another username'')]))))"
  using assms
  by (auto simp: register_def userRegisterSchema_def User_exists_email_def
      User_exists_username_def split: option.splits)

theorem register_conflict_email_first_witness:
  "userRegisterSchema demo_libs alice_body \<and> usersUp (db_alice []) \<and>
   list_ex (\<lambda>u. u_email u = ''alice@x.com'') (users (db_alice [])) \<and>
   list_ex (\<lambda>u. u_username u = ''alice'') (users (db_alice [])) \<and>
   register demo_libs 5 alice_body (db_alice []) =
     (db_alice [], reply (Next (ErrorObject 409
         [(''message'', ''Email already Register, use another email!'')])))"
  using register_conflict_email_first
    [where L = demo_libs and b = alice_body and s = "db_alice []"
       and e = "''alice@x.com''" and n = "''alice''" and now = 5]
    alice_body_valid
  by (simp add: demo_defs)

section \<open>A failed write of the refresh token\<close>

text \<open>
  C7. When the tokens collection cannot be written, \<^verbatim>\<open>register\<close> and
  \<^verbatim>\<open>login\<close> end as failed operations and set no cookie on the response.
\<close>
theorem store_write_failure_no_cookies:
  assumes "\<not> tokensUp s"
  shows "cookies (snd (register L now rb s)) = [] \<and> failed (outcome (snd (register L now rb s))) \<and>
         cookies (snd (login L now lb s)) = [] \<and> failed (outcome (snd (login L now lb s)))"
proof -
  have "cookies (snd (register L now rb s)) = [] \<and> failed (outcome (snd (register L now rb s)))"
    using register_result[of L now rb s] assms
    by (auto simp: reply_def storeRefreshToken_def updateOne_down
        dest!: User_save_tokensUp)
  moreover
  have "cookies (snd (login L now lb s)) = [] \<and> failed (outcome (snd (login L now lb s)))"
    using login_result[of L now lb s] assms
    by (auto simp: reply_def updateOne_down)
  ultimately show ?thesis by simp
qed

theorem store_write_failure_no_cookies_witness:
  "\<not> tokensUp (db0\<lparr>tokensUp := False\<rparr>) \<and>
   \<not> tokensUp ((db_alice [])\<lparr>tokensUp := False\<rparr>) \<and>
   register demo_libs 0 alice_body (db0\<lparr>tokensUp := False\<rparr>) =
     ((db_alice [])\<lparr>tokensUp := False\<rparr>,
      \<lparr>cookies = [], cleared = [], outcome = Rejected MongoError\<rparr>) \<and>
   login demo_libs 5 \<lparr>lb_username = Some ''alice'', lb_password = Some ''Passw0rd!''\<rparr>
       ((db_alice [])\<lparr>tokensUp := False\<rparr>) =
     ((db_alice [])\<lparr>tokensUp := False\<rparr>,
      \<lparr>cookies = [], cleared = [], outcome = Next MongoError\<rparr>)"
  using store_write_failure_no_cookies
    [where s = "db0\<lparr>tokensUp := False\<rparr>" and L = demo_libs and now = 0
       and rb = alice_body
       and lb = "\<lparr>lb_username = Some ''alice'', lb_password = Some ''Passw0rd!''\<rparr>"]
    store_write_failure_no_cookies
    [where s = "(db_alice [])\<lparr>tokensUp := False\<rparr>" and L = demo_libs and now = 5
       and rb = alice_body
       and lb = "\<lparr>lb_username = Some ''alice'', lb_password = Some ''Passw0rd!''\<rparr>"]
    alice_body_valid
  by (simp add: register_def login_def userLoginSchema_def passwordPattern_demo
      bcrypt_compare_def store_defs reply_def demo_defs Let_def)

section \<open>The max-age of the refreshed cookie\<close>

text \<open>
  C8. On a successful \<^verbatim>\<open>refresh\<close> the refreshToken cookie gets the max-age
  \<open>1000 * 60 * 6024 = 361440000\<close>, while a successful \<^verbatim>\<open>login\<close> gives the same
  cookie \<open>1000 * 60 * 60 * 24 = 86400000\<close>; the accessToken cookie gets 86400000 on
  both paths.
\<close>
theorem refresh_cookie_maxAge_inconsistent:
  assumes "outcome (snd (refresh now c s)) = Json n bd"
    and "outcome (snd (login L now' lb s')) = Json n' bd'"
  shows "map (\<lambda>k. (c_name k, maxAge k)) (cookies (snd (refresh now c s))) =
           [(''accessToken'', 86400000), (''refreshToken'', 361440000)] \<and>
         map (\<lambda>k. (c_name k, maxAge k)) (cookies (snd (login L now' lb s'))) =
           [(''accessToken'', 86400000), (''refreshToken'', 86400000)]"
proof -
  have "map (\<lambda>k. (c_name k, maxAge k)) (cookies (snd (refresh now c s))) =
           [(''accessToken'', 86400000), (''refreshToken'', 361440000)]"
    using assms(1)
    by (auto simp: refresh_def Let_def reply_def send_user_def refresh_cookies_def
        split: sum.splits if_splits)
  moreover
  have "map (\<lambda>k. (c_name k, maxAge k)) (cookies (snd (login L now' lb s'))) =
           [(''accessToken'', 86400000), (''refreshToken'', 86400000)]"
    using login_result[of L now' lb s'] assms(2)
    by (auto simp: reply_def send_user_def login_cookies_def)
  ultimately show ?thesis by simp
qed

theorem refresh_cookie_maxAge_inconsistent_witness:
  "outcome (snd (refresh 10 (Some (Jwt REFRESH_TOKEN_SECRET 1 0 3600))
       (db_alice [Jwt REFRESH_TOKEN_SECRET 1 0 3600]))) =
     Json 200 \<lparr>b_user = Some alice_dto, b_auth = True\<rparr> \<and>
   outcome (snd (login demo_libs 5 \<lparr>lb_username = Some ''alice'', lb_password = Some ''Passw0rd!''\<rparr>
       (db_alice []))) =
     Json 200 \<lparr>b_user = Some alice_dto, b_auth = True\<rparr> \<and>
   map (\<lambda>k. (c_name k, maxAge k)) (cookies (snd (refresh 10 (Some (Jwt REFRESH_TOKEN_SECRET 1 0 3600))
       (db_alice [Jwt REFRESH_TOKEN_SECRET 1 0 3600])))) =
     [(''accessToken'', 86400000), (''refreshToken'', 361440000)] \<and>
   map (\<lambda>k. (c_name k, maxAge k)) (cookies (snd (login demo_libs 5
       \<lparr>lb_username = Some ''alice'', lb_password = Some ''Passw0rd!''\<rparr> (db_alice [])))) =
     [(''accessToken'', 86400000), (''refreshToken'', 86400000)]"
  using refresh_cookie_maxAge_inconsistent
    [where now = 10 and c = "Some (Jwt REFRESH_TOKEN_SECRET 1 0 3600)"
       and s = "db_alice [Jwt REFRESH_TOKEN_SECRET 1 0 3600]"
       and n = 200 and bd = "\<lparr>b_user = Some alice_dto, b_auth = True\<rparr>"
       and L = demo_libs and now' = 5
       and lb = "\<lparr>lb_username = Some ''alice'', lb_password = Some ''Passw0rd!''\<rparr>"
       and s' = "db_alice []"
       and n' = 200 and bd' = "\<lparr>b_user = Some alice_dto, b_auth = True\<rparr>"]
    refresh_alice [where now = 10 and ex = 3600 and iat = 0
       and ts = "[Jwt REFRESH_TOKEN_SECRET 1 0 3600]"]
    login_alice [where now = 5 and ts = "[]"]
  by simp

section \<open>Login without a password\<close>

text \<open>
  C9. A login request with a username of 3 to 30 characters and no password passes
  \<^verbatim>\<open>userLoginSchema\<close>, and \<^verbatim>\<open>login\<close> then always ends in \<^verbatim>\<open>next(error)\<close>
  with the database unchanged and no cookie set; when the user exists, the error is
  the one \<^verbatim>\<open>bcrypt.compare\<close> throws for the absent password.
\<close>
theorem login_without_password_never_succeeds:
  assumes "lb_username b = Some u" and "3 \<le> length u" and "length u \<le> 30"
    and "lb_password b = None"
  shows "userLoginSchema b \<and> (\<exists>e. login L now b s = (s, reply (Next e))) \<and>
         (usersUp s \<and> list_ex (\<lambda>x. u_username x = u) (users s) \<longrightarrow>
            login L now b s = (s, reply (Next IllegalArguments)))"
  using assms
  by (auto simp: login_def userLoginSchema_def bcrypt_compare_def User_findOne_username_def
      list_ex_iff find_None_iff split: option.splits sum.splits)

theorem login_without_password_never_succeeds_witness:
  "userLoginSchema \<lparr>lb_username = Some ''alice'', lb_password = None\<rparr> \<and>
   login demo_libs 5 \<lparr>lb_username = Some ''alice'', lb_password = None\<rparr>
       (db_alice [Jwt REFRESH_TOKEN_SECRET 1 0 3600]) =
     (db_alice [Jwt REFRESH_TOKEN_SECRET 1 0 3600], reply (Next IllegalArguments))"
  using login_without_password_never_succeeds
    [where b = "\<lparr>lb_username = Some ''alice'', lb_password = None\<rparr>" and u = "''alice''"
       and s = "db_alice [Jwt REFRESH_TOKEN_SECRET 1 0 3600]" and L = demo_libs and now = 5]
  by (simp add: demo_defs)

section \<open>Refresh for a user that no longer exists\<close>

text \<open>
  C10. For a refresh token that verifies but whose subject has no user record,
  \<^verbatim>\<open>refresh\<close> does not end in the 401 "unauthorized" error: the absent user goes
  unchecked into \<^verbatim>\<open>new userDTO(user)\<close>, and with both collections reachable the
  handler has already set both cookies when the constructor throws.
\<close>
theorem refresh_missing_user_not_unauthorized:
  assumes "verifyRefreshToken now c = Inr i"
    and "find (\<lambda>u. u_id u = i) (users s) = None"
  shows "outcome (snd (refresh now c s)) \<noteq> Next unauthorized \<and>
         (tokensUp s \<and> usersUp s \<longrightarrow>
            snd (refresh now c s) =
              \<lparr>cookies = refresh_cookies (signAccessToken i (30 * 60) now)
                                          (signRefreshToken i (60 * 60) now),
               cleared = [], outcome = Rejected TypeError\<rparr>)"
  using assms
  by (auto simp: refresh_def Let_def truthy_def send_user_def unauthorized_def reply_def
      RefreshToken_updateOne_def User_findOne_id_def
      split: sum.splits if_splits)

theorem refresh_missing_user_not_unauthorized_witness:
  "verifyRefreshToken 10 (Some (Jwt REFRESH_TOKEN_SECRET 7 0 3600)) = Inr 7 \<and>
   find (\<lambda>u. u_id u = 7) (users (db_alice [])) = None \<and>
   refresh 10 (Some (Jwt REFRESH_TOKEN_SECRET 7 0 3600)) (db_alice []) =
     (db_alice [],
      \<lparr>cookies = refresh_cookies (Jwt ACCESS_TOKEN_SECRET 7 10 1810)
                                 (Jwt REFRESH_TOKEN_SECRET 7 10 3610),
       cleared = [], outcome = Rejected TypeError\<rparr>)"
  using refresh_missing_user_not_unauthorized
    [where now = 10 and c = "Some (Jwt REFRESH_TOKEN_SECRET 7 0 3600)" and i = 7
       and s = "db_alice []"]
  by (simp add: refresh_def store_defs demo_defs Let_def)

end
